theory Spec2Isabelle
  imports Complex_Main "HOL-Library.Sublist"
begin

section \<open>Scan filters of ms\_peak\_picker (scan\_filter.py)\<close>

text \<open>
  The module keeps a global register of named filters and a function \<open>transform\<close>
  that threads a pair of NumPy arrays through a list of filters. The arrays are Python
  objects: one filter writes into the array it was given, the others allocate. The
  model therefore keeps an explicit object store: an array is a cell of the store, a
  Python variable holds a reference to a cell. Python has no dangling references: the
  references a caller passes are cells of the store, and the properties that read
  the store say so.

  The float64 elements are idealised as real numbers: rounding and overflow are not
  modelled. The special values that NumPy produces where the reals have none (division
  by zero, statistics of an empty array) are written out where the code can meet them.
\<close>

subsection \<open>Arrays, references and the object store\<close>

type_synonym ndarray = "real list"
type_synonym ref = nat
type_synonym heap = "ndarray list"

definition load :: "heap \<Rightarrow> ref \<Rightarrow> ndarray" where
  "load h r = h ! r"

definition store :: "ref \<Rightarrow> ndarray \<Rightarrow> heap \<Rightarrow> heap" where
  "store r a h = h[r := a]"

definition alloc :: "ndarray \<Rightarrow> heap \<Rightarrow> ref \<times> heap" where
  "alloc a h = (length h, h @ [a])"

datatype error =
    KeyError string
  | ValueError
  | IndexError
  | NonFinite
  | External string

text \<open>
  \<open>KeyError\<close> is the dictionary lookup of an unregistered name, \<open>ValueError\<close> what
  NumPy raises for \<open>min\<close>/\<open>max\<close> of an empty array and for \<open>interp\<close> on
  ill-shaped sample arrays, \<open>IndexError\<close> a boolean mask whose length differs from the
  indexed array. \<open>NonFinite\<close> is not an exception of the source: it marks a run in
  which NumPy would store \<open>inf\<close> or \<open>nan\<close> into an array (with a warning), values
  that a real-valued array cannot hold. \<open>External\<close> is any failure of a collaborator.
  An exception does not undo writes to the store, so a result carries the store in
  both cases.
\<close>

type_synonym 'a result = "(error + 'a) \<times> heap"

subsection \<open>The NumPy operations the filters use\<close>

text \<open>Statistics of an empty array are \<open>nan\<close> (with a warning): \<open>None\<close> here.\<close>

definition np_mean :: "ndarray \<Rightarrow> real option" where
  "np_mean a = (if a = [] then None else Some (sum_list a / real (length a)))"

definition np_median :: "ndarray \<Rightarrow> real option" where
  "np_median a =
     (let s = sort a; n = length a in
      if n = 0 then None
      else if odd n then Some (s ! (n div 2))
      else Some ((s ! (n div 2 - 1) + s ! (n div 2)) / 2))"

text \<open>\<open>a.max()\<close> and \<open>a.min()\<close> raise on an empty array.\<close>

definition np_max :: "ndarray \<Rightarrow> error + real" where
  "np_max a = (case a of [] \<Rightarrow> Inl ValueError | x # xs \<Rightarrow> Inr (fold max xs x))"

definition np_min :: "ndarray \<Rightarrow> error + real" where
  "np_min a = (case a of [] \<Rightarrow> Inl ValueError | x # xs \<Rightarrow> Inr (fold min xs x))"

text \<open>\<open>a < v\<close> and \<open>a > v\<close>: any comparison with \<open>nan\<close> is false.\<close>

definition less_scalar :: "ndarray \<Rightarrow> real option \<Rightarrow> bool list" where
  "less_scalar a v = map (\<lambda>x. case v of None \<Rightarrow> False | Some m \<Rightarrow> x < m) a"

definition greater_scalar :: "ndarray \<Rightarrow> real \<Rightarrow> bool list" where
  "greater_scalar a c = map (\<lambda>x. c < x) a"

text \<open>The mean of a boolean array counts \<open>True\<close> as 1.\<close>

definition bool_mean :: "bool list \<Rightarrow> real option" where
  "bool_mean m = np_mean (map (\<lambda>b. if b then 1 else 0) m)"

text \<open>\<open>a[mask] = v\<close>, for a mask computed from \<open>a\<close> itself (same length).\<close>

definition assign_masked :: "ndarray \<Rightarrow> bool list \<Rightarrow> real \<Rightarrow> ndarray" where
  "assign_masked a m v = map (\<lambda>(x, b). if b then v else x) (zip a m)"

text \<open>\<open>a[mask]\<close>: a new array of the selected elements; the lengths must agree.\<close>

definition compress :: "ndarray \<Rightarrow> bool list \<Rightarrow> error + ndarray" where
  "compress a m =
     (if length a \<noteq> length m then Inl IndexError
      else Inr (map fst (filter snd (zip a m))))"

text \<open>
  One float64 quotient. Division by zero does not raise in NumPy: it gives an
  infinity or \<open>nan\<close>.
\<close>

datatype quotient = Finite real | PosInf | NegInf | NaN

definition true_divide :: "real \<Rightarrow> real \<Rightarrow> quotient" where
  "true_divide x m =
     (if m \<noteq> 0 then Finite (x / m)
      else if 0 < x then PosInf
      else if x < 0 then NegInf
      else NaN)"

fun quotient_less :: "quotient \<Rightarrow> real \<Rightarrow> bool" where
  "quotient_less (Finite q) p = (q < p)"
| "quotient_less PosInf p = False"
| "quotient_less NegInf p = True"
| "quotient_less NaN p = False"

text \<open>
  \<open>np.arange(start, stop, step)\<close>: \<open>ceil((stop - start) / step)\<close> elements (none when
  that is not positive), element \<open>i\<close> being \<open>start + i * step\<close>. A zero step has no
  length.
\<close>

definition np_arange :: "real \<Rightarrow> real \<Rightarrow> real \<Rightarrow> error + ndarray" where
  "np_arange start stop step =
     (if step = 0 then Inl ValueError
      else Inr (map (\<lambda>i. start + real i * step)
                  [0 ..< nat \<lceil>(stop - start) / step\<rceil>]))"

text \<open>
  \<open>np.interp(x, xp, fp)\<close> at one point, for sample points \<open>xp\<close> in increasing order
  (NumPy documents no result otherwise): the sample \<open>j\<close> is the last one with
  \<open>xp[j] \<le> x\<close>; left of the samples the value is \<open>fp[0]\<close>, at or right of the last
  sample \<open>fp[-1]\<close>, at a sample point its value, and in between
  \<open>slope * (x - xp[j]) + fp[j]\<close>. \<open>np_interp\<close> below calls it on non-empty
  arrays of equal length only; the last equation is there to make it total.
\<close>

fun interp_at :: "real \<Rightarrow> real list \<Rightarrow> real list \<Rightarrow> real" where
  "interp_at x (x0 # x1 # xp) (y0 # y1 # fp) =
     (if x < x1 then
        (if x \<le> x0 then y0 else (y1 - y0) / (x1 - x0) * (x - x0) + y0)
      else interp_at x (x1 # xp) (y1 # fp))"
| "interp_at x xp (y0 # fp) = y0"
| "interp_at x xp [] = 0"

definition np_interp :: "ndarray \<Rightarrow> ndarray \<Rightarrow> ndarray \<Rightarrow> error + ndarray" where
  "np_interp x xp fp =
     (if xp = [] \<or> length fp \<noteq> length xp then Inl ValueError
      else Inr (map (\<lambda>v. interp_at v xp fp) x))"

subsection \<open>Collaborators outside the module\<close>

text \<open>
  \<open>scipy.signal.savgol_filter\<close> and \<open>fticr_denoising.denoise\<close> are not part of the
  module: they are parameters of the model. Each gets array values and returns new
  array values or fails.
\<close>

record externals =
  savgol_filter :: "ndarray \<Rightarrow> int \<Rightarrow> int \<Rightarrow> int \<Rightarrow> error + ndarray"
  fticr_remove_baseline ::
    "ndarray \<Rightarrow> ndarray \<Rightarrow> real \<Rightarrow> real \<Rightarrow> real \<Rightarrow> error + ndarray \<times> ndarray"

subsection \<open>The filter classes\<close>

text \<open>An instance is its class together with the attributes set by \<open>__init__\<close>.\<close>

datatype filt =
    FilterBase
  | MedianIntensityFilter
  | MeanBelowMeanFilter
  | SavitskyGolayFilter int int int  \<comment> \<open>\<open>window_length\<close>, \<open>polyorder\<close>, \<open>deriv\<close>\<close>
  | NPercentOfMaxFilter real  \<comment> \<open>\<open>p\<close>\<close>
  | FTICRBaselineRemoval real real real  \<comment> \<open>\<open>window_length\<close>, \<open>region_width\<close>, \<open>scale\<close>\<close>
  | LinearResampling real  \<comment> \<open>\<open>spacing\<close>\<close>
  | ConstantThreshold real  \<comment> \<open>\<open>constant\<close>\<close>
  | MaximumScaler real  \<comment> \<open>\<open>threshold\<close>\<close>

text \<open>Constructors: \<open>None\<close> for an argument left to its default.\<close>

definition new_MedianIntensityFilter :: "unit \<Rightarrow> filt" where
  "new_MedianIntensityFilter u = MedianIntensityFilter"

definition new_MeanBelowMeanFilter :: "unit \<Rightarrow> filt" where
  "new_MeanBelowMeanFilter u = MeanBelowMeanFilter"

definition new_SavitskyGolayFilter :: "int option \<times> int option \<times> int option \<Rightarrow> filt" where
  "new_SavitskyGolayFilter args =
     (case args of (w, po, d) \<Rightarrow>
        SavitskyGolayFilter (case w of None \<Rightarrow> 5 | Some v \<Rightarrow> v)
                            (case po of None \<Rightarrow> 3 | Some v \<Rightarrow> v)
                            (case d of None \<Rightarrow> 0 | Some v \<Rightarrow> v))"

definition new_NPercentOfMaxFilter :: "real option \<Rightarrow> filt" where
  "new_NPercentOfMaxFilter p = NPercentOfMaxFilter (case p of None \<Rightarrow> 1 / 1000 | Some v \<Rightarrow> v)"

definition new_FTICRBaselineRemoval :: "real option \<times> real option \<times> real option \<Rightarrow> filt" where
  "new_FTICRBaselineRemoval args =
     (case args of (w, rw, s) \<Rightarrow>
        FTICRBaselineRemoval (case w of None \<Rightarrow> 1 | Some v \<Rightarrow> v)
                             (case rw of None \<Rightarrow> 10 | Some v \<Rightarrow> v)
                             (case s of None \<Rightarrow> 5 | Some v \<Rightarrow> v))"

definition new_LinearResampling :: "real \<Rightarrow> filt" where
  "new_LinearResampling s = LinearResampling s"

definition new_ConstantThreshold :: "real \<Rightarrow> filt" where
  "new_ConstantThreshold c = ConstantThreshold c"

definition new_MaximumScaler :: "real \<Rightarrow> filt" where
  "new_MaximumScaler t = MaximumScaler t"

subsection \<open>The \<open>filter\<close> methods\<close>

definition FilterBase_filter :: "ref \<Rightarrow> ref \<Rightarrow> heap \<Rightarrow> (ref \<times> ref) result" where
  "FilterBase_filter mz_array intensity_array h = (Inr (mz_array, intensity_array), h)"

text \<open>\<open>np.array(intensity_array)\<close> copies; the write goes to the copy.\<close>

definition MedianIntensityFilter_filter :: "ref \<Rightarrow> ref \<Rightarrow> heap \<Rightarrow> (ref \<times> ref) result" where
  "MedianIntensityFilter_filter mz_array intensity_array h =
     (let a = load h intensity_array;
          mask = less_scalar a (np_median a);
          (clone, h1) = alloc a h;
          h2 = store clone (assign_masked (load h1 clone) mask 0) h1
      in (Inr (mz_array, clone), h2))"

text \<open>The write goes to the array that was passed in.\<close>

definition MeanBelowMeanFilter_filter :: "ref \<Rightarrow> ref \<Rightarrow> heap \<Rightarrow> (ref \<times> ref) result" where
  "MeanBelowMeanFilter_filter mz_array intensity_array h =
     (let a = load h intensity_array;
          mean = np_mean a;
          mean_below_mean = bool_mean (less_scalar a mean);
          mask = less_scalar a mean_below_mean;
          h1 = store intensity_array (assign_masked a mask 0) h
      in (Inr (mz_array, intensity_array), h1))"

definition SavitskyGolayFilter_filter ::
  "externals \<Rightarrow> int \<Rightarrow> int \<Rightarrow> int \<Rightarrow> ref \<Rightarrow> ref \<Rightarrow> heap \<Rightarrow> (ref \<times> ref) result" where
  "SavitskyGolayFilter_filter ext w po d mz_array intensity_array h =
     (case savgol_filter ext (load h intensity_array) w po d of
        Inl e \<Rightarrow> (Inl e, h)
      | Inr s \<Rightarrow>
          (let smoothed = map (max 0) s;
               mask = greater_scalar smoothed 0
           in case compress (load h mz_array) mask of
                Inl e \<Rightarrow> (Inl e, h)
              | Inr new_mz \<Rightarrow>
                  (case compress smoothed mask of
                     Inl e \<Rightarrow> (Inl e, h)
                   | Inr new_intensity \<Rightarrow>
                       (let (r1, h1) = alloc new_mz h;
                            (r2, h2) = alloc new_intensity h1
                        in (Inr (r1, r2), h2)))))"

definition NPercentOfMaxFilter_filter ::
  "real \<Rightarrow> ref \<Rightarrow> ref \<Rightarrow> heap \<Rightarrow> (ref \<times> ref) result" where
  "NPercentOfMaxFilter_filter p mz_array intensity_array h =
     (let a = load h intensity_array in
      case np_max a of
        Inl e \<Rightarrow> (Inl e, h)
      | Inr m \<Rightarrow>
          (let mask = map (\<lambda>x. quotient_less (true_divide x m) p) a;
               (clone, h1) = alloc a h;
               h2 = store clone (assign_masked (load h1 clone) mask 0) h1
           in (Inr (mz_array, clone), h2)))"

definition FTICRBaselineRemoval_filter ::
  "externals \<Rightarrow> real \<Rightarrow> real \<Rightarrow> real \<Rightarrow> ref \<Rightarrow> ref \<Rightarrow> heap \<Rightarrow> (ref \<times> ref) result" where
  "FTICRBaselineRemoval_filter ext w rw s mz_array intensity_array h =
     (case fticr_remove_baseline ext (load h mz_array) (load h intensity_array) w rw s of
        Inl e \<Rightarrow> (Inl e, h)
      | Inr (new_mz, new_intensity) \<Rightarrow>
          (let (r1, h1) = alloc new_mz h;
               (r2, h2) = alloc new_intensity h1
           in (Inr (r1, r2), h2)))"

definition LinearResampling_filter ::
  "real \<Rightarrow> ref \<Rightarrow> ref \<Rightarrow> heap \<Rightarrow> (ref \<times> ref) result" where
  "LinearResampling_filter sp mz_array intensity_array h =
     (case np_min (load h mz_array) of
        Inl e \<Rightarrow> (Inl e, h)
      | Inr lo \<Rightarrow>
     (case np_max (load h mz_array) of
        Inl e \<Rightarrow> (Inl e, h)
      | Inr hi \<Rightarrow>
     (case np_arange lo (hi + sp) sp of
        Inl e \<Rightarrow> (Inl e, h)
      | Inr new_mz \<Rightarrow>
     (case np_interp new_mz (load h mz_array) (load h intensity_array) of
        Inl e \<Rightarrow> (Inl e, h)
      | Inr new_intensity \<Rightarrow>
          (let (r1, h1) = alloc new_mz h;
               (r2, h2) = alloc new_intensity h1
           in (Inr (r1, r2), h2))))))"

text \<open>Indexing with a boolean mask always makes new arrays.\<close>

definition ConstantThreshold_filter ::
  "real \<Rightarrow> ref \<Rightarrow> ref \<Rightarrow> heap \<Rightarrow> (ref \<times> ref) result" where
  "ConstantThreshold_filter c mz_array intensity_array h =
     (let mask = greater_scalar (load h intensity_array) c in
      case compress (load h mz_array) mask of
        Inl e \<Rightarrow> (Inl e, h)
      | Inr new_mz \<Rightarrow>
          (case compress (load h intensity_array) mask of
             Inl e \<Rightarrow> (Inl e, h)
           | Inr new_intensity \<Rightarrow>
               (let (r1, h1) = alloc new_mz h;
                    (r2, h2) = alloc new_intensity h1
                in (Inr (r1, r2), h2))))"

text \<open>
  \<open>intensity_array / intensity_array.max() * self.threshold\<close> is a new array, bound to
  the local name only. With a maximum of zero every quotient is an infinity or
  \<open>nan\<close>, and so is every element of the product.
\<close>

definition MaximumScaler_filter ::
  "real \<Rightarrow> ref \<Rightarrow> ref \<Rightarrow> heap \<Rightarrow> (ref \<times> ref) result" where
  "MaximumScaler_filter t mz_array intensity_array h =
     (let a = load h intensity_array in
      case np_max a of
        Inl e \<Rightarrow> (Inl e, h)
      | Inr m \<Rightarrow>
          if m > t then
            (if m = 0 then (Inl NonFinite, h)
             else (let (r, h1) = alloc (map (\<lambda>x. x / m * t) a) h
                   in (Inr (mz_array, r), h1)))
          else (Inr (mz_array, intensity_array), h))"

text \<open>\<open>__call__\<close> dispatches to the \<open>filter\<close> method of the instance's class.\<close>

fun call :: "externals \<Rightarrow> filt \<Rightarrow> ref \<Rightarrow> ref \<Rightarrow> heap \<Rightarrow> (ref \<times> ref) result" where
  "call ext FilterBase mz i h = FilterBase_filter mz i h"
| "call ext MedianIntensityFilter mz i h = MedianIntensityFilter_filter mz i h"
| "call ext MeanBelowMeanFilter mz i h = MeanBelowMeanFilter_filter mz i h"
| "call ext (SavitskyGolayFilter w po d) mz i h = SavitskyGolayFilter_filter ext w po d mz i h"
| "call ext (NPercentOfMaxFilter p) mz i h = NPercentOfMaxFilter_filter p mz i h"
| "call ext (FTICRBaselineRemoval w rw s) mz i h = FTICRBaselineRemoval_filter ext w rw s mz i h"
| "call ext (LinearResampling sp) mz i h = LinearResampling_filter sp mz i h"
| "call ext (ConstantThreshold c) mz i h = ConstantThreshold_filter c mz i h"
| "call ext (MaximumScaler t) mz i h = MaximumScaler_filter t mz i h"

subsection \<open>The register\<close>

type_synonym registry = "string \<rightharpoonup> filt"

text \<open>
  \<open>register(name, *args, **kwargs)(cls)\<close> stores \<open>cls(*args, **kwargs)\<close> under
  \<open>name\<close>. The class is its constructor, the arguments its argument tuple.
\<close>

definition register :: "string \<Rightarrow> 'args \<Rightarrow> ('args \<Rightarrow> filt) \<Rightarrow> registry \<Rightarrow> registry" where
  "register name args cls reg = reg(name \<mapsto> cls args)"

text \<open>
  The registrations in the order the module runs them: stacked decorators apply from
  the innermost outwards.
\<close>

definition filter_register :: registry where
  "filter_register =
     fold (\<lambda>r. r)
       [register ''median'' () new_MedianIntensityFilter,
        register ''mean_below_mean'' () new_MeanBelowMeanFilter,
        register ''savitsky_golay'' (None, None, None) new_SavitskyGolayFilter,
        register ''one_percent_of_max'' (Some (1 / 100)) new_NPercentOfMaxFilter,
        register ''tenth_percent_of_max'' None new_NPercentOfMaxFilter,
        register ''fticr_baseline'' (None, None, None) new_FTICRBaselineRemoval,
        register ''linear_resampling'' (1 / 100) new_LinearResampling,
        register ''over_100'' 100 new_ConstantThreshold,
        register ''over_10'' 10 new_ConstantThreshold,
        register ''extreme_scale_limiter'' 30000 new_MaximumScaler]
       Map.empty"

subsection \<open>\<open>transform\<close>\<close>

text \<open>
  A filter reference is a registered name, an instance of a filter class, or any other
  callable, which may do to the store whatever it likes.
\<close>

datatype filter_ref =
    ByName string
  | Instance filt
  | Callable "ref \<Rightarrow> ref \<Rightarrow> heap \<Rightarrow> (ref \<times> ref) result"

text \<open>The body of the loop for one element of \<open>filters\<close>, and the loop.\<close>

definition apply_ref ::
  "externals \<Rightarrow> registry \<Rightarrow> filter_ref \<Rightarrow> ref \<Rightarrow> ref \<Rightarrow> heap \<Rightarrow> (ref \<times> ref) result" where
  "apply_ref ext reg filt mz_array intensity_array h =
     (case filt of
        ByName name \<Rightarrow>
          (case reg name of
             None \<Rightarrow> (Inl (KeyError name), h)
           | Some f \<Rightarrow> call ext f mz_array intensity_array h)
      | Instance f \<Rightarrow> call ext f mz_array intensity_array h
      | Callable g \<Rightarrow> g mz_array intensity_array h)"

fun apply_filters ::
  "externals \<Rightarrow> registry \<Rightarrow> filter_ref list \<Rightarrow> ref \<Rightarrow> ref \<Rightarrow> heap \<Rightarrow> (ref \<times> ref) result" where
  "apply_filters ext reg [] mz_array intensity_array h = (Inr (mz_array, intensity_array), h)"
| "apply_filters ext reg (filt # filters) mz_array intensity_array h =
     (case apply_ref ext reg filt mz_array intensity_array h of
        (Inl e, h1) \<Rightarrow> (Inl e, h1)
      | (Inr (mz1, intensity1), h1) \<Rightarrow> apply_filters ext reg filters mz1 intensity1 h1)"

definition transform ::
  "externals \<Rightarrow> registry \<Rightarrow> ref \<Rightarrow> ref \<Rightarrow> filter_ref list option \<Rightarrow> heap \<Rightarrow> (ref \<times> ref) result" where
  "transform ext reg mz_array intensity_array filters h =
     apply_filters ext reg (case filters of None \<Rightarrow> [] | Some fs \<Rightarrow> fs)
       mz_array intensity_array h"

subsection \<open>What the caller sees\<close>

text \<open>The values of the two arrays that a call hands back, or its exception.\<close>

definition returned :: "(ref \<times> ref) result \<Rightarrow> error + ndarray \<times> ndarray" where
  "returned res =
     (case res of
        (Inl e, h) \<Rightarrow> Inl e
      | (Inr (r1, r2), h) \<Rightarrow> Inr (load h r1, load h r2))"

text \<open>
  Stand-ins for the two collaborators, for the worked examples: a smoother that changes
  nothing and a denoiser that removes nothing from arrays of equal length.
\<close>

definition test_externals :: externals where
  "test_externals =
     \<lparr>savgol_filter = (\<lambda>a w po d. Inr a),
      fticr_remove_baseline =
        (\<lambda>mz a w rw s. if length mz = length a then Inr (mz, a) else Inl (External ''denoise''))\<rparr>"

subsection \<open>Pairs of arrays\<close>


text \<open>
  Modelled from the spec: \<open>fticr_denoising.denoise\<close> is not among the sources. By
  the specification it is a function from coordinates, intensities and three parameters
  to new coordinates and intensities, points below the noise floor removed from both:
  the two arrays it returns have the same length.
\<close>

definition denoise_paired :: "externals \<Rightarrow> bool" where
  "denoise_paired ext =
     (\<forall>mz a w rw s new_mz new_a.
        fticr_remove_baseline ext mz a w rw s = Inr (new_mz, new_a)
        \<longrightarrow> length new_mz = length new_a)"



text \<open>A reference that does not stand for the one class that writes into its input.\<close>

fun allocates_only :: "registry \<Rightarrow> filter_ref \<Rightarrow> bool" where
  "allocates_only reg (ByName name) = (reg name \<noteq> Some MeanBelowMeanFilter)"
| "allocates_only reg (Instance f) = (f \<noteq> MeanBelowMeanFilter)"
| "allocates_only reg (Callable g) = False"


subsection \<open>The mean-below-mean filter as the specification words it\<close>




subsection \<open>The resampling grid as the specification words it\<close>



section \<open>Properties\<close>

subsection \<open>Lists, masks and the store\<close>

lemma filter_zip_mask:
  "length xs = length ys \<Longrightarrow>
   map fst (filter snd (zip xs (map P ys))) = map fst (filter (\<lambda>(x, y). P y) (zip xs ys))"
  by (induction xs ys rule: list_induct2) auto

lemma filter_self_mask: "map fst (filter snd (zip ys (map P ys))) = filter P ys"
  by (induction ys) auto

lemma map_snd_filter_zip:
  "length xs = length ys \<Longrightarrow> map snd (filter (\<lambda>(x, y). P y) (zip xs ys)) = filter P ys"
  by (induction xs ys rule: list_induct2) auto

lemma zip_fst_snd: "zip (map fst zs) (map snd zs) = zs"
  by (induction zs) auto

lemma ConstantThreshold_filter_eq:
  assumes "length (load h mz) = length (load h ints)"
  shows "ConstantThreshold_filter c mz ints h =
     (Inr (length h, Suc (length h)),
      h @ [map fst (filter (\<lambda>(x, y). c < y) (zip (load h mz) (load h ints))),
           map snd (filter (\<lambda>(x, y). c < y) (zip (load h mz) (load h ints)))])"
  using assms
  by (simp add: ConstantThreshold_filter_def greater_scalar_def compress_def alloc_def
      filter_zip_mask filter_self_mask map_snd_filter_zip)

lemma ConstantThreshold_filter_mismatch:
  "length (load h mz) \<noteq> length (load h ints) \<Longrightarrow>
   ConstantThreshold_filter c mz ints h = (Inl IndexError, h)"
  by (simp add: ConstantThreshold_filter_def greater_scalar_def compress_def)

lemma apply_filters_append:
  "apply_filters ext reg (pre @ post) mz ints h =
     (case apply_filters ext reg pre mz ints h of
        (Inl e, h1) \<Rightarrow> (Inl e, h1)
      | (Inr (mz1, ints1), h1) \<Rightarrow> apply_filters ext reg post mz1 ints1 h1)"
  by (induction pre arbitrary: mz ints h) (auto split: prod.splits sum.splits)

lemma filter_register_unknown: "filter_register ''does_not_exist'' = None"
  by (simp add: filter_register_def register_def)

lemma apply_filters_single:
  "apply_filters ext reg [f] mz ints h = apply_ref ext reg f mz ints h"
proof (cases "apply_ref ext reg f mz ints h")
  case (Pair r h1)
  then show ?thesis by (cases r) auto
qed

lemma apply_filters_name_instance:
  "reg name = Some f \<Longrightarrow>
   apply_filters ext reg (ByName name # post) mz ints h
     = apply_filters ext reg (Instance f # post) mz ints h"
  by (simp add: apply_ref_def)

lemma transform_by_name:
  "transform ext reg mz ints (Some [ByName name]) h =
     (case reg name of
        None \<Rightarrow> (Inl (KeyError name), h)
      | Some f \<Rightarrow> call ext f mz ints h)"
  by (simp add: transform_def apply_filters_single apply_ref_def del: apply_filters.simps)

lemma np_max_Max: "a \<noteq> [] \<Longrightarrow> np_max a = Inr (Max (set a))"
  by (cases a) (simp_all add: np_max_def Max.set_eq_fold [symmetric])










subsection \<open>Pairs are kept; stores grow\<close>



lemma MedianIntensityFilter_filter_eq:
  "MedianIntensityFilter_filter mz ints h =
     (Inr (mz, length h),
      h @ [assign_masked (load h ints) (less_scalar (load h ints) (np_median (load h ints))) 0])"
  by (simp add: MedianIntensityFilter_filter_def alloc_def store_def load_def Let_def)

lemma NPercentOfMaxFilter_filter_eq:
  "load h ints \<noteq> [] \<Longrightarrow>
   NPercentOfMaxFilter_filter p mz ints h =
     (Inr (mz, length h),
      h @ [assign_masked (load h ints)
             (map (\<lambda>x. quotient_less (true_divide x (Max (set (load h ints)))) p) (load h ints))
             0])"
  by (simp add: NPercentOfMaxFilter_filter_def np_max_Max alloc_def store_def Let_def)
     (simp add: load_def)

lemma NPercentOfMaxFilter_filter_empty:
  "load h ints = [] \<Longrightarrow> NPercentOfMaxFilter_filter p mz ints h = (Inl ValueError, h)"
  by (simp add: NPercentOfMaxFilter_filter_def np_max_def)

lemma MeanBelowMeanFilter_filter_store:
  "MeanBelowMeanFilter_filter mz ints h =
     (Inr (mz, ints),
      h[ints := assign_masked (load h ints)
                  (less_scalar (load h ints)
                     (bool_mean (less_scalar (load h ints) (np_mean (load h ints))))) 0])"
  by (simp add: MeanBelowMeanFilter_filter_def store_def Let_def)




lemma alloc_two:
  "(let (r1, h1) = alloc a h; (r2, h2) = alloc b h1 in (Inr (r1, r2), h2))
     = (Inr (length h, Suc (length h)), h @ [a, b])"
  by (simp add: alloc_def)
















































lemma denoise_paired_test: "denoise_paired test_externals"
  by (simp add: denoise_paired_def test_externals_def)







lemma prefix_two: "prefix h (h @ [a, b])"
  by simp

lemma SavitskyGolayFilter_extends:
  "prefix h (snd (SavitskyGolayFilter_filter ext w po d mz ints h))"
  by (simp add: SavitskyGolayFilter_filter_def alloc_def Let_def split: sum.splits)

lemma NPercentOfMaxFilter_extends:
  "prefix h (snd (NPercentOfMaxFilter_filter p mz ints h))"
  by (cases "load h ints = []")
     (simp_all add: NPercentOfMaxFilter_filter_eq NPercentOfMaxFilter_filter_empty)

lemma FTICRBaselineRemoval_extends:
  "prefix h (snd (FTICRBaselineRemoval_filter ext w rw s mz ints h))"
  by (simp add: FTICRBaselineRemoval_filter_def alloc_def split: sum.splits prod.splits)

lemma LinearResampling_extends:
  "prefix h (snd (LinearResampling_filter sp mz ints h))"
  by (simp add: LinearResampling_filter_def alloc_def split: sum.splits)

lemma ConstantThreshold_extends:
  "prefix h (snd (ConstantThreshold_filter c mz ints h))"
  by (cases "length (load h mz) = length (load h ints)")
     (simp_all add: ConstantThreshold_filter_eq ConstantThreshold_filter_mismatch)

lemma MaximumScaler_extends:
  "prefix h (snd (MaximumScaler_filter t mz ints h))"
  by (simp add: MaximumScaler_filter_def alloc_def Let_def split: sum.splits)

lemma call_extends:
  "f \<noteq> MeanBelowMeanFilter \<Longrightarrow> prefix h (snd (call ext f mz ints h))"
  by (cases f)
     (simp_all add: FilterBase_filter_def MedianIntensityFilter_filter_eq
        SavitskyGolayFilter_extends NPercentOfMaxFilter_extends FTICRBaselineRemoval_extends
        LinearResampling_extends ConstantThreshold_extends MaximumScaler_extends)

lemma apply_ref_extends:
  "allocates_only reg r \<Longrightarrow> prefix h (snd (apply_ref ext reg r mz ints h))"
proof (cases r)
  case (ByName name)
  assume "allocates_only reg r"
  with ByName show ?thesis
    by (cases "reg name") (simp_all add: apply_ref_def call_extends)
next
  case (Instance f)
  assume "allocates_only reg r"
  with Instance show ?thesis by (simp add: apply_ref_def call_extends)
next
  case (Callable g)
  assume "allocates_only reg r"
  with Callable show ?thesis by simp
qed

lemma apply_filters_extends:
  "\<forall>r \<in> set fs. allocates_only reg r \<Longrightarrow>
   prefix h (snd (apply_filters ext reg fs mz ints h))"
proof (induction fs arbitrary: mz ints h)
  case Nil
  show ?case by simp
next
  case (Cons r fs)
  obtain res h1 where s: "apply_ref ext reg r mz ints h = (res, h1)"
    by (cases "apply_ref ext reg r mz ints h")
  from Cons.prems have "allocates_only reg r" by simp
  from apply_ref_extends [OF this, of h ext mz ints] s have p1: "prefix h h1" by simp
  show ?case
  proof (cases res)
    case (Inl e)
    with s p1 show ?thesis by simp
  next
    case (Inr rr1)
    obtain mz1 ints1 where rr1: "rr1 = (mz1, ints1)" by (cases rr1)
    from Cons.prems have "\<forall>r \<in> set fs. allocates_only reg r" by simp
    from Cons.IH [OF this, of h1 mz1 ints1]
    have "prefix h1 (snd (apply_filters ext reg fs mz1 ints1 h1))" .
    with p1 have "prefix h (snd (apply_filters ext reg fs mz1 ints1 h1))"
      by (rule prefix_order.trans)
    with s Inr rr1 show ?thesis by simp
  qed
qed

subsection \<open>Grids and interpolation\<close>











subsection \<open>The empty pipeline\<close>

text \<open>
  C3. With \<open>filters=None\<close> or an empty list, \<open>transform\<close> returns the very arrays it
  was given (the same two objects) and leaves the store as it was.
\<close>

theorem transform_identity:
  "transform ext reg mz_array intensity_array None h = (Inr (mz_array, intensity_array), h)
   \<and> transform ext reg mz_array intensity_array (Some []) h = (Inr (mz_array, intensity_array), h)"
  by (simp add: transform_def)


subsection \<open>The constant threshold\<close>

text \<open>
  C5. On a pair of arrays of equal length the constant-threshold filter returns two new
  arrays: the coordinates and the intensities of exactly the points whose intensity is
  strictly greater than the constant, in their order; the intensities are the input
  intensities above the constant. Coordinates \<open>[1,2,3,4,5]\<close> with intensities
  \<open>[1,1,50,1,1]\<close> through \<open>"over_10"\<close> give \<open>([3],[50])\<close>, and two empty arrays
  give two empty arrays.
\<close>

theorem ConstantThreshold_keeps_points_above:
  "(length (load h mz) = length (load h ints) \<longrightarrow>
      ConstantThreshold_filter c mz ints h =
        (Inr (length h, Suc (length h)),
         h @ [map fst (filter (\<lambda>(x, y). c < y) (zip (load h mz) (load h ints))),
              map snd (filter (\<lambda>(x, y). c < y) (zip (load h mz) (load h ints)))])
      \<and> map snd (filter (\<lambda>(x, y). c < y) (zip (load h mz) (load h ints)))
          = filter (\<lambda>y. c < y) (load h ints))
   \<and> transform ext filter_register 0 1 (Some [ByName ''over_10''])
        [[1, 2, 3, 4, 5], [1, 1, 50, 1, 1]]
      = (Inr (2, 3), [[1, 2, 3, 4, 5], [1, 1, 50, 1, 1], [3], [50]])
   \<and> ConstantThreshold_filter c 0 1 [[], []] = (Inr (2, 3), [[], [], [], []])"
proof (intro conjI impI)
  assume len: "length (load h mz) = length (load h ints)"
  show "ConstantThreshold_filter c mz ints h =
        (Inr (length h, Suc (length h)),
         h @ [map fst (filter (\<lambda>(x, y). c < y) (zip (load h mz) (load h ints))),
              map snd (filter (\<lambda>(x, y). c < y) (zip (load h mz) (load h ints)))])"
    by (rule ConstantThreshold_filter_eq [OF len])
  show "map snd (filter (\<lambda>(x, y). c < y) (zip (load h mz) (load h ints)))
          = filter (\<lambda>y. c < y) (load h ints)"
    by (rule map_snd_filter_zip [OF len])
next
  show "transform ext filter_register 0 1 (Some [ByName ''over_10''])
        [[1, 2, 3, 4, 5], [1, 1, 50, 1, 1]]
      = (Inr (2, 3), [[1, 2, 3, 4, 5], [1, 1, 50, 1, 1], [3], [50]])"
    by (simp add: transform_def apply_ref_def filter_register_def register_def
        new_ConstantThreshold_def ConstantThreshold_filter_def greater_scalar_def
        compress_def alloc_def load_def)
next
  show "ConstantThreshold_filter c 0 1 [[], []] = (Inr (2, 3), [[], [], [], []])"
    by (simp add: ConstantThreshold_filter_def greater_scalar_def compress_def alloc_def
        load_def)
qed

theorem ConstantThreshold_keeps_points_above_witness:
  "length (load [[7, 8, 9], [5, 20, 11]] 0) = length (load [[7, 8, 9], [5, 20, 11]] 1)
   \<and> ConstantThreshold_filter 10 0 1 [[7, 8, 9], [5, 20, 11]]
       = (Inr (2, 3), [[7, 8, 9], [5, 20, 11], [8, 9], [20, 11]])"
  using ConstantThreshold_keeps_points_above
    [where h = "[[7, 8, 9], [5, 20, 11]]" and mz = 0 and ints = 1 and c = 10]
  by (simp add: load_def)

text \<open>
  C6. Applying a constant-threshold filter twice in succession hands back arrays with
  the same values as applying it once (and the same exception where one application
  fails).
\<close>

theorem ConstantThreshold_idempotent:
  "returned (transform ext reg mz ints
       (Some [Instance (ConstantThreshold c), Instance (ConstantThreshold c)]) h)
   = returned (transform ext reg mz ints (Some [Instance (ConstantThreshold c)]) h)"
proof (cases "length (load h mz) = length (load h ints)")
  case True
  let ?zs = "filter (\<lambda>(x :: real, y). c < y) (zip (load h mz) (load h ints))"
  let ?h1 = "h @ [map fst ?zs, map snd ?zs]"
  have once: "ConstantThreshold_filter c mz ints h = (Inr (length h, Suc (length h)), ?h1)"
    by (rule ConstantThreshold_filter_eq [OF True])
  have l1: "load ?h1 (length h) = map fst ?zs"
    and l2: "load ?h1 (Suc (length h)) = map snd ?zs"
    by (simp_all add: load_def nth_append)
  have len: "length (load ?h1 (length h)) = length (load ?h1 (Suc (length h)))"
    by (simp add: l1 l2)
  have twice: "ConstantThreshold_filter c (length h) (Suc (length h)) ?h1 =
      (Inr (length ?h1, Suc (length ?h1)), ?h1 @ [map fst ?zs, map snd ?zs])"
    unfolding ConstantThreshold_filter_eq [OF len] l1 l2 zip_fst_snd by simp
  have t1: "transform ext reg mz ints (Some [Instance (ConstantThreshold c)]) h =
      (Inr (length h, Suc (length h)), ?h1)"
    by (simp add: transform_def apply_ref_def once)
  have t2: "transform ext reg mz ints
       (Some [Instance (ConstantThreshold c), Instance (ConstantThreshold c)]) h =
      (Inr (length ?h1, Suc (length ?h1)), ?h1 @ [map fst ?zs, map snd ?zs])"
    by (simp add: transform_def apply_ref_def once twice)
  show ?thesis
    unfolding t1 t2 by (simp add: returned_def load_def nth_append)
next
  case False
  then show ?thesis
    by (simp add: transform_def apply_ref_def ConstantThreshold_filter_mismatch returned_def)
qed

theorem ConstantThreshold_idempotent_witness:
  "returned (transform test_externals filter_register 0 1
       (Some [Instance (ConstantThreshold 10), Instance (ConstantThreshold 10)])
       [[7, 8, 9], [5, 20, 11]])
   = Inr ([8, 9], [20, 11])"
  unfolding ConstantThreshold_idempotent
  by (simp add: transform_def apply_ref_def ConstantThreshold_filter_def greater_scalar_def
      compress_def alloc_def load_def returned_def)

subsection \<open>Unregistered names\<close>

text \<open>
  C4, as the claim has it, fails: the stages before the unregistered name have run when
  the name is reached. With \<open>"mean_below_mean"\<close> in front, the caller's intensity
  array has been overwritten when the \<open>KeyError\<close> is raised; with
  \<open>"tenth_percent_of_max"\<close> in front and empty arrays, the exception raised is the
  \<open>ValueError\<close> of \<open>max\<close>, not a \<open>KeyError\<close>.
\<close>

theorem transform_unknown_filter_counterexample:
  "transform test_externals filter_register 0 1
     (Some [ByName ''mean_below_mean'', ByName ''does_not_exist'']) [[1, 2], [1 / 5, 5]]
   = (Inl (KeyError ''does_not_exist''), [[1, 2], [0, 5]])
   \<and> load [[1, 2], [0, 5]] 1 \<noteq> load [[1, 2], [1 / 5, 5]] 1
   \<and> transform test_externals filter_register 0 1
     (Some [ByName ''tenth_percent_of_max'', ByName ''does_not_exist'']) [[], []]
   = (Inl ValueError, [[], []])"
  by (simp add: transform_def apply_ref_def filter_register_def register_def
      new_MeanBelowMeanFilter_def MeanBelowMeanFilter_filter_def load_def store_def
      np_mean_def bool_mean_def less_scalar_def assign_masked_def
      new_NPercentOfMaxFilter_def NPercentOfMaxFilter_filter_def np_max_def)

text \<open>
  C4, amended. When the stages before an unregistered name all return, \<open>transform\<close>
  raises the \<open>KeyError\<close> of that name; whatever follows the name in the list plays no
  part, and the store is the one the earlier stages left. When the unregistered
  name comes first, the store is the caller's, untouched.
\<close>

theorem transform_unknown_filter:
  "(reg name = None \<and> transform ext reg mz ints (Some pre) h = (Inr (mz1, ints1), h1)
      \<longrightarrow> transform ext reg mz ints (Some (pre @ ByName name # post)) h
            = (Inl (KeyError name), h1))
   \<and> (reg name = None
      \<longrightarrow> transform ext reg mz ints (Some (ByName name # post)) h = (Inl (KeyError name), h))"
  by (simp add: transform_def apply_filters_append apply_ref_def)

theorem transform_unknown_filter_witness:
  "filter_register ''does_not_exist'' = None
   \<and> transform test_externals filter_register 0 1 (Some [ByName ''over_10''])
       [[7, 8, 9], [5, 20, 11]]
     = (Inr (2, 3), [[7, 8, 9], [5, 20, 11], [8, 9], [20, 11]])
   \<and> transform test_externals filter_register 0 1
       (Some ([ByName ''over_10''] @ ByName ''does_not_exist'' # [ByName ''median'']))
       [[7, 8, 9], [5, 20, 11]]
     = (Inl (KeyError ''does_not_exist''), [[7, 8, 9], [5, 20, 11], [8, 9], [20, 11]])
   \<and> transform test_externals filter_register 0 1
       (Some (ByName ''does_not_exist'' # [ByName ''median''])) [[7, 8, 9], [5, 20, 11]]
     = (Inl (KeyError ''does_not_exist''), [[7, 8, 9], [5, 20, 11]])"
proof -
  have n: "filter_register ''does_not_exist'' = None"
    by (rule filter_register_unknown)
  have t: "transform test_externals filter_register 0 1 (Some [ByName ''over_10''])
       [[7, 8, 9], [5, 20, 11]]
     = (Inr (2, 3), [[7, 8, 9], [5, 20, 11], [8, 9], [20, 11]])"
    by (simp add: transform_def apply_ref_def filter_register_def register_def
        new_ConstantThreshold_def ConstantThreshold_filter_def greater_scalar_def
        compress_def alloc_def load_def)
  from n t transform_unknown_filter
    [where reg = filter_register and name = "''does_not_exist''" and ext = test_externals
       and mz = 0 and ints = 1 and pre = "[ByName ''over_10'']"
       and h = "[[7, 8, 9], [5, 20, 11]]" and post = "[ByName ''median'']"
       and ?mz1.0 = 2 and ?ints1.0 = 3
       and ?h1.0 = "[[7, 8, 9], [5, 20, 11], [8, 9], [20, 11]]"]
  show ?thesis by blast
qed

subsection \<open>Names and instances\<close>

text \<open>
  C1. \<open>register\<close> stores under the name the instance its class makes of the
  registration arguments; a name that the register knows can be replaced, anywhere in
  the filter list, by the instance stored under it; and for each of the ten names of the
  module, \<open>transform\<close> with the name does what calling an instance constructed
  with the same arguments does. The module registers these ten names and no other.
\<close>

theorem registered_name_is_instance:
  "register name args cls reg name = Some (cls args)
   \<and> transform ext (register name args cls reg) mz ints (Some [ByName name]) h
       = call ext (cls args) mz ints h
   \<and> (reg name = Some f \<longrightarrow>
        transform ext reg mz ints (Some (pre @ ByName name # post)) h
          = transform ext reg mz ints (Some (pre @ Instance f # post)) h)
   \<and> dom filter_register =
        {''median'', ''mean_below_mean'', ''savitsky_golay'', ''one_percent_of_max'',
         ''tenth_percent_of_max'', ''fticr_baseline'', ''linear_resampling'', ''over_100'',
         ''over_10'', ''extreme_scale_limiter''}
   \<and> transform ext filter_register mz ints (Some [ByName ''median'']) h
       = call ext (new_MedianIntensityFilter ()) mz ints h
   \<and> transform ext filter_register mz ints (Some [ByName ''mean_below_mean'']) h
       = call ext (new_MeanBelowMeanFilter ()) mz ints h
   \<and> transform ext filter_register mz ints (Some [ByName ''savitsky_golay'']) h
       = call ext (new_SavitskyGolayFilter (None, None, None)) mz ints h
   \<and> transform ext filter_register mz ints (Some [ByName ''one_percent_of_max'']) h
       = call ext (new_NPercentOfMaxFilter (Some (1 / 100))) mz ints h
   \<and> transform ext filter_register mz ints (Some [ByName ''tenth_percent_of_max'']) h
       = call ext (new_NPercentOfMaxFilter None) mz ints h
   \<and> transform ext filter_register mz ints (Some [ByName ''fticr_baseline'']) h
       = call ext (new_FTICRBaselineRemoval (None, None, None)) mz ints h
   \<and> transform ext filter_register mz ints (Some [ByName ''linear_resampling'']) h
       = call ext (new_LinearResampling (1 / 100)) mz ints h
   \<and> transform ext filter_register mz ints (Some [ByName ''over_100'']) h
       = call ext (new_ConstantThreshold 100) mz ints h
   \<and> transform ext filter_register mz ints (Some [ByName ''over_10'']) h
       = call ext (new_ConstantThreshold 10) mz ints h
   \<and> transform ext filter_register mz ints (Some [ByName ''extreme_scale_limiter'']) h
       = call ext (new_MaximumScaler 30000) mz ints h"
proof -
  have d: "dom filter_register =
        {''median'', ''mean_below_mean'', ''savitsky_golay'', ''one_percent_of_max'',
         ''tenth_percent_of_max'', ''fticr_baseline'', ''linear_resampling'', ''over_100'',
         ''over_10'', ''extreme_scale_limiter''}"
    by (auto simp add: filter_register_def register_def)
  have r: "register name args cls reg name = Some (cls args)"
    by (simp add: register_def)
  have t: "transform ext (register name args cls reg) mz ints (Some [ByName name]) h
       = call ext (cls args) mz ints h"
    by (simp add: transform_by_name r)
  have a: "reg name = Some f \<longrightarrow>
        transform ext reg mz ints (Some (pre @ ByName name # post)) h
          = transform ext reg mz ints (Some (pre @ Instance f # post)) h"
  proof
    assume n: "reg name = Some f"
    show "transform ext reg mz ints (Some (pre @ ByName name # post)) h
          = transform ext reg mz ints (Some (pre @ Instance f # post)) h"
      unfolding transform_def option.case apply_filters_append
        apply_filters_name_instance
          [where reg = reg and name = name and f = f and ext = ext and post = post, OF n] ..
  qed
  show ?thesis
    by (intro conjI)
       (fact r, fact t, fact a, fact d,
        simp_all add: transform_by_name filter_register_def register_def)
qed

theorem registered_name_is_instance_witness:
  "filter_register ''over_10'' = Some (ConstantThreshold 10)
   \<and> transform test_externals filter_register 0 1
       (Some ([ByName ''median''] @ ByName ''over_10'' # [])) [[7, 8, 9], [5, 20, 11]]
     = transform test_externals filter_register 0 1
       (Some ([ByName ''median''] @ Instance (ConstantThreshold 10) # []))
       [[7, 8, 9], [5, 20, 11]]"
proof -
  have n: "filter_register ''over_10'' = Some (ConstantThreshold 10)"
    by (simp add: filter_register_def register_def new_ConstantThreshold_def)
  note th = registered_name_is_instance
    [where reg = filter_register and name = "''over_10''" and f = "ConstantThreshold 10"
       and pre = "[ByName ''median'']" and post = "[]" and ext = test_externals
       and mz = 0 and ints = 1 and h = "[[7, 8, 9], [5, 20, 11]]"]
  show ?thesis by (intro conjI n) (rule th [THEN conjunct2, THEN conjunct2, THEN conjunct1, THEN mp, OF n])
qed

subsection \<open>The maximum scaler\<close>




subsection \<open>The mean-below-mean filter\<close>



subsection \<open>Equal lengths at every stage\<close>



subsection \<open>In place or into a copy\<close>

text \<open>
  C10. The mean-below-mean filter returns the intensity array it was given and has
  written the zeroes into it: the store differs at that reference only. The median
  filter and the p-fraction-of-max filter return a new array; the store is the old one
  with the new array appended (the latter raises on an empty array and leaves the
  store alone). A list of names and instances without the mean-below-mean filter
  leaves every array the caller had as it was, whereas \<open>"mean_below_mean"\<close> on
  intensities \<open>[0.2, 5]\<close> turns the caller's own array into \<open>[0, 5]\<close>.
\<close>

theorem in_place_or_copy:
  "MeanBelowMeanFilter_filter mz ints h =
     (Inr (mz, ints),
      h[ints := assign_masked (load h ints)
                  (less_scalar (load h ints)
                     (bool_mean (less_scalar (load h ints) (np_mean (load h ints))))) 0])
   \<and> MedianIntensityFilter_filter mz ints h =
     (Inr (mz, length h),
      h @ [assign_masked (load h ints) (less_scalar (load h ints) (np_median (load h ints))) 0])
   \<and> (load h ints \<noteq> [] \<longrightarrow>
        NPercentOfMaxFilter_filter p mz ints h =
          (Inr (mz, length h),
           h @ [assign_masked (load h ints)
                  (map (\<lambda>x. quotient_less (true_divide x (Max (set (load h ints)))) p)
                     (load h ints)) 0]))
   \<and> (load h ints = [] \<longrightarrow> NPercentOfMaxFilter_filter p mz ints h = (Inl ValueError, h))
   \<and> ((\<forall>r \<in> set fs. allocates_only reg r) \<longrightarrow>
        prefix h (snd (transform ext reg mz ints (Some fs) h)))
   \<and> transform ext filter_register 0 1 (Some [ByName ''mean_below_mean''])
        [[1, 2], [1 / 5, 5]]
      = (Inr (0, 1), [[1, 2], [0, 5]])"
proof (intro conjI impI)
  show "transform ext filter_register 0 1 (Some [ByName ''mean_below_mean''])
        [[1, 2], [1 / 5, 5]]
      = (Inr (0, 1), [[1, 2], [0, 5]])"
    by (simp add: transform_by_name filter_register_def register_def
        new_MeanBelowMeanFilter_def MeanBelowMeanFilter_filter_def load_def store_def
        np_mean_def bool_mean_def less_scalar_def assign_masked_def)
qed (simp_all add: MeanBelowMeanFilter_filter_store MedianIntensityFilter_filter_eq
      NPercentOfMaxFilter_filter_eq NPercentOfMaxFilter_filter_empty transform_def
      apply_filters_extends)

theorem in_place_or_copy_witness:
  "load [[1, 2], [1 / 500, 5]] 1 \<noteq> []
   \<and> NPercentOfMaxFilter_filter (1 / 100) 0 1 [[1, 2], [1 / 500, 5]]
       = (Inr (0, 2), [[1, 2], [1 / 500, 5], [0, 5]])
   \<and> load [[], []] 1 = []
   \<and> NPercentOfMaxFilter_filter (1 / 100) 0 1 [[], []] = (Inl ValueError, [[], []])
   \<and> prefix [[1, 2], [1 / 500, 5]]
        (snd (transform test_externals filter_register 0 1
               (Some [ByName ''median'', Instance (NPercentOfMaxFilter (1 / 100))])
               [[1, 2], [1 / 500, 5]]))"
proof -
  let ?h = "[[1, 2], [1 / 500, 5 :: real]]"
  have ne: "load ?h 1 \<noteq> []" by (simp add: load_def)
  have em: "load [[], []] 1 = []" by (simp add: load_def)
  have al: "\<forall>r \<in> set [ByName ''median'', Instance (NPercentOfMaxFilter (1 / 100))].
         allocates_only filter_register r"
    by (simp add: filter_register_def register_def new_MedianIntensityFilter_def)
  note th = in_place_or_copy [where h = ?h and ints = 1 and mz = 0 and p = "1 / 100"
      and reg = filter_register and ext = test_externals
      and fs = "[ByName ''median'', Instance (NPercentOfMaxFilter (1 / 100))]"]
  note th2 = in_place_or_copy [where h = "[[], []]" and ints = 1 and mz = 0 and p = "1 / 100"]
  from th [THEN conjunct2, THEN conjunct2, THEN conjunct1, THEN mp, OF ne]
  have n: "NPercentOfMaxFilter_filter (1 / 100) 0 1 ?h = (Inr (0, 2), [[1, 2], [1 / 500, 5], [0, 5]])"
    by (simp add: load_def assign_masked_def true_divide_def)
  note e = th2 [THEN conjunct2, THEN conjunct2, THEN conjunct2, THEN conjunct1, THEN mp, OF em]
  note x = th [THEN conjunct2, THEN conjunct2, THEN conjunct2, THEN conjunct2, THEN conjunct1,
      THEN mp, OF al]
  show ?thesis
    by (intro conjI) (fact ne, fact n, fact em, fact e, fact x)
qed

subsection \<open>Uniform resampling\<close>



end
